theory Spec2Isabelle
  imports Main
begin

section \<open>The part of Go's time package that the handlers call\<close>

text \<open>
  A \<open>time.Time\<close> is an instant: the number of nanoseconds since the Unix epoch.
  \<open>Add\<close>, \<open>After\<close> and \<open>Before\<close> are addition and comparison of instants, and
  \<open>UTC()\<close> and \<open>In(loc)\<close> leave the instant as it is. A calendar date, the triple that
  \<open>Year()\<close>, \<open>Month()\<close> and \<open>Day()\<close> return and that \<open>time.Date\<close> takes back, is
  represented by its day number (days since 1970-01-01), so a date read off one instant
  and passed to \<open>time.Date\<close> is one integer.
\<close>

type_synonym time = int
type_synonym duration = int

definition Minute_d :: duration where
  "Minute_d = 60 * 1000000000"

definition Hour_d :: duration where
  "Hour_d = 3600 * 1000000000"

definition unix :: "time \<Rightarrow> int" where
  "unix t = t div 1000000000"

definition Nanosecond :: "time \<Rightarrow> int" where
  "Nanosecond t = t mod 1000000000"

definition Second :: "time \<Rightarrow> int" where
  "Second t = unix t mod 60"

definition Minute :: "time \<Rightarrow> int" where
  "Minute t = (unix t div 60) mod 60"

text \<open>
  A \<open>*time.Location\<close>: the offset (seconds east of UTC) in force before the first
  transition, and the transitions \<open>(when, offset)\<close> in ascending order of \<open>when\<close> (Unix
  seconds). \<open>lookup\<close> returns the offset in force at a Unix second together with the
  bounds \<open>[start, end)\<close> of the period it holds for; \<open>alpha\<close> and \<open>omega\<close> are the
  package's sentinels for an unbounded period.
\<close>

record location =
  zone0 :: int
  tx :: "(int \<times> int) list"

definition alpha :: int where
  "alpha = - (2 ^ 63)"

definition omega :: int where
  "omega = 2 ^ 63 - 1"

fun lookup_tx :: "(int \<times> int) list \<Rightarrow> int \<Rightarrow> int \<times> int \<times> int \<Rightarrow> int \<times> int \<times> int" where
  "lookup_tx [] sec cur = cur"
| "lookup_tx ((w, off) # rest) sec (off0, start, endw) =
     (if sec < w then (off0, start, w) else lookup_tx rest sec (off, w, omega))"

definition lookup :: "location \<Rightarrow> int \<Rightarrow> int \<times> int \<times> int" where
  "lookup loc sec = lookup_tx (tx loc) sec (zone0 loc, alpha, omega)"

definition offset_at :: "location \<Rightarrow> int \<Rightarrow> int" where
  "offset_at loc sec = fst (lookup loc sec)"

text \<open>
  \<open>time.Date(year, month, day, hour, min, 0, 0, loc)\<close>: the wall-clock reading is first
  taken as if it were UTC, the offset found there is subtracted, and when the result
  falls outside the period of that offset the offset in force at the result is used.
\<close>

definition Date :: "int \<Rightarrow> int \<Rightarrow> int \<Rightarrow> location \<Rightarrow> time" where
  "Date day hour mi loc =
     (let u = day * 86400 + hour * 3600 + mi * 60 in
      case lookup loc u of (off, start, endw) \<Rightarrow>
        (if off \<noteq> 0 then
           (let utc = u - off;
                off' = (if utc < start \<or> endw \<le> utc then offset_at loc utc else off)
            in (u - off') * 1000000000)
         else u * 1000000000))"

definition local_day :: "location \<Rightarrow> time \<Rightarrow> int" where
  "local_day loc t = (unix t + offset_at loc (unix t)) div 86400"

definition weekday_of_day :: "int \<Rightarrow> int" where
  "weekday_of_day day = (day + 4) mod 7"

definition Weekday :: "location \<Rightarrow> time \<Rightarrow> int" where
  "Weekday loc t = weekday_of_day (local_day loc t)"

text \<open>
  \<open>time.Parse("15:04", value)\<close>. The hour element \<open>15\<close> takes one or two digits, the
  minute element \<open>04\<close> exactly two; text left over is an error. The result is the pair
  that \<open>Hour()\<close> and \<open>Minute()\<close> return. \<open>time.ParseInLocation\<close> with the same layout
  accepts the same strings and places the reading on 1 January of year 0, before every
  transition of a zone, so its \<open>Hour()\<close> and \<open>Minute()\<close> are the parsed fields too.
\<close>

definition isDigit :: "string \<Rightarrow> nat \<Rightarrow> bool" where
  "isDigit s i = (i < length s \<and> 48 \<le> (of_char (s ! i) :: nat) \<and> (of_char (s ! i) :: nat) \<le> 57)"

definition digit :: "char \<Rightarrow> int" where
  "digit c = int (of_char c) - 48"

definition getnum :: "string \<Rightarrow> bool \<Rightarrow> (int \<times> string) option" where
  "getnum s fixed =
     (if \<not> isDigit s 0 then None
      else if \<not> isDigit s 1 then (if fixed then None else Some (digit (s ! 0), drop 1 s))
      else Some (digit (s ! 0) * 10 + digit (s ! 1), drop 2 s))"

definition Parse_clock :: "string \<Rightarrow> (int \<times> int) option" where
  "Parse_clock v =
     (case getnum v False of
        None \<Rightarrow> None
      | Some (hour, v1) \<Rightarrow>
          if hour < 0 \<or> 24 \<le> hour then None
          else (case v1 of
                  [] \<Rightarrow> None
                | c # v2 \<Rightarrow>
                    if c \<noteq> CHR '':'' then None
                    else (case getnum v2 True of
                            None \<Rightarrow> None
                          | Some (mi, v3) \<Rightarrow>
                              if mi < 0 \<or> 60 \<le> mi then None
                              else if v3 \<noteq> [] then None
                              else Some (hour, mi))))"

text \<open>
  The handlers ignore the error of \<open>ParseInLocation\<close>; on an error the returned time is
  the zero \<open>Time\<close>, whose \<open>Hour()\<close> and \<open>Minute()\<close> are 0.
\<close>

definition clock_or_zero :: "string \<Rightarrow> int \<times> int" where
  "clock_or_zero s = (case Parse_clock s of None \<Rightarrow> (0, 0) | Some hm \<Rightarrow> hm)"

text \<open>Go compares strings byte by byte.\<close>

fun string_less :: "string \<Rightarrow> string \<Rightarrow> bool" where
  "string_less [] [] = False"
| "string_less [] (y # ys) = True"
| "string_less (x # xs) [] = False"
| "string_less (x # xs) (y # ys) =
     (if (of_char x :: nat) < of_char y then True
      else if (of_char y :: nat) < of_char x then False
      else string_less xs ys)"

text \<open>
  What the handlers take from their platform: \<open>time.Parse(time.RFC3339, s)\<close> (the
  instant, or an error), \<open>time.Parse("2006-01-02", s)\<close> (the date, whose \<open>Time\<close> is
  midnight UTC of that day), \<open>time.LoadLocation\<close> over the system's zone database, and
  MySQL's reading of a string parameter that a statement compares with an INT column:
  \<open>sql_int\<close> is the integer the column is compared with (none when the string equals no
  integer), and \<open>sql_exact\<close> says whether the whole string is a number. A string that is
  not, such as \<open>abc\<close> or \<open>1abc\<close>, is cut off at its numeric prefix; a \<open>SELECT\<close> goes on
  with a warning, a \<open>DELETE\<close> fails with error 1292 under the server's default strict
  SQL mode.
\<close>

record platform =
  Parse_RFC3339 :: "string \<Rightarrow> time option"
  Parse_date :: "string \<Rightarrow> int option"
  LoadLocation :: "string \<Rightarrow> location option"
  sql_int :: "string \<Rightarrow> int option"
  sql_exact :: "string \<Rightarrow> bool"

text \<open>
  \<open>t.UTC().Format(time.RFC3339)\<close> prints an instant to the second; the string is
  represented by the Unix second it denotes.
\<close>

definition Format_RFC3339 :: "time \<Rightarrow> int" where
  "Format_RFC3339 t = unix t"

section \<open>The tables of migrations.sql\<close>

record coach =
  c_id :: int
  c_name :: string
  c_timezone :: string

record availability =
  a_id :: int
  a_coach_id :: int
  a_day_of_week :: int
  a_start_time :: string
  a_end_time :: string

record booking =
  b_id :: int
  b_user_id :: int
  b_coach_id :: int
  b_start_time :: time
  b_end_time :: time

text \<open>
  The database: the rows of each table in insertion order, the ids of the \<open>users\<close>
  table (no handler writes it), and the AUTO_INCREMENT counters. Statements fail only on
  the constraints of the schema: the foreign keys and the unique key \<open>ux_coach_start\<close>.
\<close>

record db =
  coaches :: "coach list"
  users :: "int list"
  coach_availabilities :: "availability list"
  bookings :: "booking list"
  next_coach_id :: int
  next_availability_id :: int
  next_booking_id :: int

definition empty_db :: "int list \<Rightarrow> db" where
  "empty_db us =
     \<lparr>coaches = [], users = us, coach_availabilities = [], bookings = [],
      next_coach_id = 1, next_availability_id = 1, next_booking_id = 1\<rparr>"

text \<open>
  The outcomes of the handlers other than success, under the names of the error
  taxonomy: status 400 with the binding, parsing and range messages is
  \<open>MalformedInput\<close>, 400 "invalid timezone" is \<open>InvalidTimezone\<close>, 400 "slot must be
  on 30-minute boundary" is \<open>BoundaryViolation\<close>, 400 "requested slot not within coach
  availability" is \<open>OutsideAvailability\<close>, 404 "coach not found" is \<open>CoachNotFound\<close>,
  404 "booking not found" is \<open>NotFound\<close>, 409 is \<open>SlotConflict\<close>, 500 with a database
  error is \<open>StorageError\<close>. \<open>NilLocation\<close> is the panic of a \<open>Time\<close> method called with
  the nil location that an ignored \<open>LoadLocation\<close> error leaves behind.
\<close>

datatype error =
  MalformedInput
  | InvalidTimezone
  | CoachNotFound
  | BoundaryViolation
  | OutsideAvailability
  | SlotConflict
  | NotFound
  | StorageError
  | NilLocation

section \<open>The handlers\<close>

record CreateCoachReq =
  cc_Name :: string
  cc_Timezone :: string

record AvailabilityReq =
  av_CoachID :: int
  av_Day :: int
  av_StartTime :: string
  av_EndTime :: string

record BookingReq =
  bk_UserID :: int
  bk_CoachID :: int
  bk_Datetime :: string

text \<open>
  \<open>ShouldBindJSON\<close> with \<open>binding:"required"\<close> rejects a field that holds the zero
  value of its type.
\<close>

definition bind_coach :: "CreateCoachReq \<Rightarrow> bool" where
  "bind_coach r = (cc_Name r \<noteq> [] \<and> cc_Timezone r \<noteq> [])"

definition bind_availability :: "AvailabilityReq \<Rightarrow> bool" where
  "bind_availability r =
     (av_CoachID r \<noteq> 0 \<and> av_Day r \<noteq> 0 \<and> av_StartTime r \<noteq> [] \<and> av_EndTime r \<noteq> [])"

definition bind_booking :: "BookingReq \<Rightarrow> bool" where
  "bind_booking r = (bk_UserID r \<noteq> 0 \<and> bk_CoachID r \<noteq> 0 \<and> bk_Datetime r \<noteq> [])"

definition CreateCoachHandler :: "platform \<Rightarrow> db \<Rightarrow> CreateCoachReq \<Rightarrow> (error + int) \<times> db" where
  "CreateCoachHandler P s req =
     (if \<not> bind_coach req then (Inl MalformedInput, s)
      else if LoadLocation P (cc_Timezone req) = None then (Inl InvalidTimezone, s)
      else (Inr (next_coach_id s),
            s\<lparr>coaches := coaches s @
                 [\<lparr>c_id = next_coach_id s, c_name = cc_Name req, c_timezone = cc_Timezone req\<rparr>],
              next_coach_id := next_coach_id s + 1\<rparr>))"

definition coach_exists :: "db \<Rightarrow> int \<Rightarrow> bool" where
  "coach_exists s k = (\<exists>c \<in> set (coaches s). c_id c = k)"

definition PostAvailabilityHandler :: "db \<Rightarrow> AvailabilityReq \<Rightarrow> (error + int) \<times> db" where
  "PostAvailabilityHandler s r =
     (if \<not> bind_availability r then (Inl MalformedInput, s)
      else if av_Day r < 0 \<or> av_Day r > 6 then (Inl MalformedInput, s)
      else if Parse_clock (av_StartTime r) = None then (Inl MalformedInput, s)
      else if Parse_clock (av_EndTime r) = None then (Inl MalformedInput, s)
      else if \<not> string_less (av_StartTime r) (av_EndTime r) then (Inl MalformedInput, s)
      else if \<not> coach_exists s (av_CoachID r) then (Inl StorageError, s)
      else (Inr (next_availability_id s),
            s\<lparr>coach_availabilities := coach_availabilities s @
                 [\<lparr>a_id = next_availability_id s, a_coach_id = av_CoachID r,
                   a_day_of_week = av_Day r, a_start_time = av_StartTime r,
                   a_end_time = av_EndTime r\<rparr>],
              next_availability_id := next_availability_id s + 1\<rparr>))"

text \<open>\<open>SELECT timezone FROM coaches WHERE id = ?\<close>, first row.\<close>

definition coach_timezone :: "db \<Rightarrow> int option \<Rightarrow> string option" where
  "coach_timezone s k =
     (case find (\<lambda>c. Some (c_id c) = k) (coaches s) of
        None \<Rightarrow> None
      | Some c \<Rightarrow> Some (c_timezone c))"

text \<open>
  \<open>SELECT start_time, end_time FROM coach_availabilities WHERE coach_id = ? AND
  day_of_week = ?\<close>.
\<close>

definition availabilities_for :: "db \<Rightarrow> int option \<Rightarrow> int \<Rightarrow> (string \<times> string) list" where
  "availabilities_for s k weekday =
     map (\<lambda>a. (a_start_time a, a_end_time a))
       (filter (\<lambda>a. Some (a_coach_id a) = k \<and> a_day_of_week a = weekday)
          (coach_availabilities s))"

text \<open>
  The inner loop of \<open>GetSlotsHandler\<close>:
  \<open>for t := start; !t.Add(30 * time.Minute).After(end); t = t.Add(30 * time.Minute)\<close>.
\<close>

function window_slots :: "time \<Rightarrow> time \<Rightarrow> time list" where
  "window_slots t endT =
     (if \<not> (t + 30 * Minute_d > endT) then t # window_slots (t + 30 * Minute_d) endT else [])"
  by pat_completeness auto
termination
  by (relation "measure (\<lambda>(t, endT). nat (endT - t + 1))") (auto simp: Minute_d_def)

declare window_slots.simps [simp del]

definition anchor :: "location \<Rightarrow> int \<Rightarrow> string \<Rightarrow> time" where
  "anchor loc day s = (case clock_or_zero s of (h, m) \<Rightarrow> Date day h m loc)"

definition generate_slots :: "location \<Rightarrow> int \<Rightarrow> (string \<times> string) list \<Rightarrow> time list" where
  "generate_slots loc day avs =
     concat (map (\<lambda>(S, E). window_slots (anchor loc day S) (anchor loc day E)) avs)"

text \<open>
  \<open>SELECT start_time FROM bookings WHERE coach_id = ? AND start_time >= ? AND
  start_time < ?\<close>, collected into \<open>bookedMap\<close> under their RFC3339 keys.
\<close>

definition booked_keys :: "db \<Rightarrow> int option \<Rightarrow> time \<Rightarrow> time \<Rightarrow> int list" where
  "booked_keys s k startUTC endUTC =
     map (\<lambda>b. Format_RFC3339 (b_start_time b))
       (filter (\<lambda>b. Some (b_coach_id b) = k \<and> startUTC \<le> b_start_time b \<and> b_start_time b < endUTC)
          (bookings s))"

definition GetSlotsHandler ::
  "platform \<Rightarrow> db \<Rightarrow> string \<Rightarrow> string \<Rightarrow> error + (int list \<times> string)" where
  "GetSlotsHandler P s coachID dateStr =
     (if coachID = [] \<or> dateStr = [] then Inl MalformedInput
      else case Parse_date P dateStr of
        None \<Rightarrow> Inl MalformedInput
      | Some date \<Rightarrow>
          (case coach_timezone s (sql_int P coachID) of
             None \<Rightarrow> Inl CoachNotFound
           | Some tz \<Rightarrow>
               (case LoadLocation P tz of
                  None \<Rightarrow> Inl NilLocation
                | Some loc \<Rightarrow>
                    (let weekday = Weekday loc (date * 86400 * 1000000000);
                         avs = availabilities_for s (sql_int P coachID) weekday;
                         slots = generate_slots loc date avs;
                         startOfDayLocal = Date date 0 0 loc;
                         endOfDayLocal = startOfDayLocal + 24 * Hour_d;
                         booked = booked_keys s (sql_int P coachID) startOfDayLocal endOfDayLocal;
                         resp = filter (\<lambda>key. key \<notin> set booked) (map Format_RFC3339 slots)
                     in Inr (resp, tz)))))"

definition IsOnThirtyMinuteBoundary :: "time \<Rightarrow> bool" where
  "IsOnThirtyMinuteBoundary t = (Minute t mod 30 = 0 \<and> Second t = 0 \<and> Nanosecond t = 0)"

text \<open>
  The availability loop of \<open>PostBookingHandler\<close>, which leaves at the first window that
  holds the slot.
\<close>

fun allowed :: "location \<Rightarrow> time \<Rightarrow> int \<Rightarrow> (string \<times> string) list \<Rightarrow> bool" where
  "allowed loc startLocal day [] = False"
| "allowed loc startLocal day ((S, E) # rows) =
     (if \<not> (startLocal < anchor loc day S) \<and> \<not> (startLocal + 30 * Minute_d > anchor loc day E)
      then True
      else allowed loc startLocal day rows)"

text \<open>
  \<open>INSERT INTO bookings\<close> inside the transaction: the unique key on
  \<open>(coach_id, start_time)\<close> answers with error 1062, which the handler reports as a
  conflict; the foreign key on \<open>user_id\<close> answers with another error.
\<close>

definition slot_taken :: "db \<Rightarrow> int \<Rightarrow> time \<Rightarrow> bool" where
  "slot_taken s k start = (\<exists>b \<in> set (bookings s). b_coach_id b = k \<and> b_start_time b = start)"

definition insert_booking :: "db \<Rightarrow> int \<Rightarrow> int \<Rightarrow> time \<Rightarrow> time \<Rightarrow> (error + int) \<times> db" where
  "insert_booking s user k start endT =
     (if slot_taken s k start then (Inl SlotConflict, s)
      else if user \<notin> set (users s) \<or> \<not> coach_exists s k then (Inl StorageError, s)
      else (Inr (Format_RFC3339 start),
            s\<lparr>bookings := bookings s @
                 [\<lparr>b_id = next_booking_id s, b_user_id = user, b_coach_id = k,
                   b_start_time = start, b_end_time = endT\<rparr>],
              next_booking_id := next_booking_id s + 1\<rparr>))"

text \<open>
  Lines 234 to 262 of \<open>PostBookingHandler\<close>: the local date of the requested instant,
  its weekday, the windows of that weekday and the loop over them.
\<close>

definition slot_allowed :: "db \<Rightarrow> location \<Rightarrow> int \<Rightarrow> time \<Rightarrow> bool" where
  "slot_allowed s loc k start =
     (let localDate = Date (local_day loc start) 0 0 loc;
          weekday = Weekday loc localDate;
          rows = availabilities_for s (Some k) weekday
      in allowed loc start (local_day loc localDate) rows)"

definition PostBookingHandler :: "platform \<Rightarrow> db \<Rightarrow> BookingReq \<Rightarrow> (error + int) \<times> db" where
  "PostBookingHandler P s r =
     (if \<not> bind_booking r then (Inl MalformedInput, s)
      else case Parse_RFC3339 P (bk_Datetime r) of
        None \<Rightarrow> (Inl MalformedInput, s)
      | Some start \<Rightarrow>
          (case coach_timezone s (Some (bk_CoachID r)) of
             None \<Rightarrow> (Inl CoachNotFound, s)
           | Some tz \<Rightarrow>
               if \<not> IsOnThirtyMinuteBoundary start then (Inl BoundaryViolation, s)
               else (case LoadLocation P tz of
                       None \<Rightarrow> (Inl NilLocation, s)
                     | Some loc \<Rightarrow>
                         if \<not> slot_allowed s loc (bk_CoachID r) start
                         then (Inl OutsideAvailability, s)
                         else insert_booking s (bk_UserID r) (bk_CoachID r) start
                                (start + 30 * Minute_d))))"

text \<open>
  \<open>DELETE FROM bookings WHERE id = ?\<close> with the path parameter as a string, the error of
  \<open>db.Exec\<close> (answer 500) when the database refuses the statement, and
  \<open>RowsAffected\<close> otherwise.
\<close>

definition CancelBookingHandler :: "platform \<Rightarrow> db \<Rightarrow> string \<Rightarrow> (error + unit) \<times> db" where
  "CancelBookingHandler P s bid =
     (if bid = [] then (Inl MalformedInput, s)
      else if \<not> sql_exact P bid then (Inl StorageError, s)
      else (let n = length (filter (\<lambda>b. Some (b_id b) = sql_int P bid) (bookings s))
            in if n = 0 then (Inl NotFound, s)
               else (Inr (),
                     s\<lparr>bookings := filter (\<lambda>b. Some (b_id b) \<noteq> sql_int P bid) (bookings s)\<rparr>)))"

section \<open>The states the interface reaches\<close>

text \<open>
  The database starts with its tables empty, apart from \<open>users\<close>, which is filled from
  outside, and changes only through the four writing handlers.
\<close>

inductive reachable :: "platform \<Rightarrow> db \<Rightarrow> bool" for P :: platform where
  reach_empty: "reachable P (empty_db us)"
| reach_coach: "reachable P s \<Longrightarrow> reachable P (snd (CreateCoachHandler P s req))"
| reach_availability: "reachable P s \<Longrightarrow> reachable P (snd (PostAvailabilityHandler s av))"
| reach_booking: "reachable P s \<Longrightarrow> reachable P (snd (PostBookingHandler P s bk))"
| reach_cancel: "reachable P s \<Longrightarrow> reachable P (snd (CancelBookingHandler P s bid))"

text \<open>
  What every reachable state satisfies: every stored timezone loads, booking ids lie
  below their counter and differ, no two bookings share coach and start, and every
  booking would still pass the checks that admitted it.
\<close>

definition admitted :: "platform \<Rightarrow> db \<Rightarrow> booking \<Rightarrow> bool" where
  "admitted P s b =
     (b_coach_id b \<noteq> 0 \<and> IsOnThirtyMinuteBoundary (b_start_time b) \<and>
      (\<exists>tz loc. coach_timezone s (Some (b_coach_id b)) = Some tz \<and>
          LoadLocation P tz = Some loc \<and>
          slot_allowed s loc (b_coach_id b) (b_start_time b)))"

definition db_inv :: "platform \<Rightarrow> db \<Rightarrow> bool" where
  "db_inv P s =
     ((\<forall>c \<in> set (coaches s). LoadLocation P (c_timezone c) \<noteq> None) \<and>
      (\<forall>b \<in> set (bookings s). b_id b < next_booking_id s) \<and>
      distinct (map b_id (bookings s)) \<and>
      distinct (map (\<lambda>b. (b_coach_id b, b_start_time b)) (bookings s)) \<and>
      (\<forall>b \<in> set (bookings s). admitted P s b))"

section \<open>Concrete dates, zones and requests\<close>

text \<open>The day number of a date of the proleptic Gregorian calendar.\<close>

definition civil_day :: "int \<Rightarrow> int \<Rightarrow> int \<Rightarrow> int" where
  "civil_day y m d =
     (let y' = (if m \<le> 2 then y - 1 else y);
          era = y' div 400;
          yoe = y' - era * 400;
          doy = (153 * (if m > 2 then m - 3 else m + 9) + 2) div 5 + d - 1;
          doe = yoe * 365 + yoe div 4 - yoe div 100 + doy
      in era * 146097 + doe - 719468)"

definition utc_time :: "int \<Rightarrow> int \<Rightarrow> int \<Rightarrow> int \<Rightarrow> int \<Rightarrow> time" where
  "utc_time y m d h mi = (civil_day y m d * 86400 + h * 3600 + mi * 60) * 1000000000"

text \<open>
  Zones as the zone database has them for 2025. Asia/Kolkata is UTC+5:30 all
  year. America/New_York is UTC-5, and UTC-4 from 2025-03-09 07:00 UTC to 2025-11-02
  06:00 UTC. Africa/Cairo is UTC+2, and UTC+3 from 2025-04-24 22:00 UTC to 2025-10-30
  21:00 UTC: its summer time ends on the last Thursday of October at 24:00, so Thursday
  30 October 2025 lasts 25 hours.
\<close>

definition Asia_Kolkata :: location where
  "Asia_Kolkata = \<lparr>zone0 = 19800, tx = []\<rparr>"

definition America_New_York :: location where
  "America_New_York =
     \<lparr>zone0 = - 18000, tx = [(1741503600, - 14400), (1762063200, - 18000)]\<rparr>"

definition Africa_Cairo :: location where
  "Africa_Cairo = \<lparr>zone0 = 7200, tx = [(1745532000, 10800), (1761858000, 7200)]\<rparr>"

text \<open>
  America/Havana is UTC-5, and UTC-4 from 2025-03-09 05:00 UTC to 2025-11-02 05:00 UTC:
  its summer time starts at local midnight, so Sunday 9 March 2025 has no 00:00.
\<close>

definition America_Havana :: location where
  "America_Havana =
     \<lparr>zone0 = - 18000, tx = [(1741496400, - 14400), (1762059600, - 18000)]\<rparr>"

text \<open>A platform that answers on the strings of the examples below.\<close>

definition example_platform :: platform where
  "example_platform =
     \<lparr>Parse_RFC3339 = (\<lambda>s.
        if s = ''2025-10-28T03:30:00Z'' then Some (utc_time 2025 10 28 3 30)
        else if s = ''2025-10-28T03:45:00Z'' then Some (utc_time 2025 10 28 3 45)
        else if s = ''2025-10-30T21:00:00Z'' then Some (utc_time 2025 10 30 21 0)
        else if s = ''2025-03-09T14:00:00Z'' then Some (utc_time 2025 3 9 14 0)
        else None),
      Parse_date = (\<lambda>s.
        if s = ''2025-10-28'' then Some (civil_day 2025 10 28)
        else if s = ''2025-10-30'' then Some (civil_day 2025 10 30)
        else None),
      LoadLocation = (\<lambda>s.
        if s = ''Asia/Kolkata'' then Some Asia_Kolkata
        else if s = ''America/New_York'' then Some America_New_York
        else if s = ''Africa/Cairo'' then Some Africa_Cairo
        else if s = ''America/Havana'' then Some America_Havana
        else None),
      sql_int = (\<lambda>s.
        if s = ''1'' then Some 1
        else if s = ''2'' then Some 2
        else if s = ''abc'' then Some 0
        else None),
      sql_exact = (\<lambda>s. s = ''1'' \<or> s = ''2'')\<rparr>"

text \<open>
  One coach in the given timezone with one availability window, user 101 in \<open>users\<close>,
  as \<open>POST /coaches\<close> and \<open>POST /coaches/availability\<close> leave the database.
\<close>

definition coach_with_window :: "string \<Rightarrow> int \<Rightarrow> string \<Rightarrow> string \<Rightarrow> db" where
  "coach_with_window tz day S E =
     snd (PostAvailabilityHandler
            (snd (CreateCoachHandler example_platform (empty_db [101])
                    \<lparr>cc_Name = ''Coach A'', cc_Timezone = tz\<rparr>))
            \<lparr>av_CoachID = 1, av_Day = day, av_StartTime = S, av_EndTime = E\<rparr>)"

definition book :: "string \<Rightarrow> BookingReq" where
  "book dt = \<lparr>bk_UserID = 101, bk_CoachID = 1, bk_Datetime = dt\<rparr>"

text \<open>
  The coach of the specification's example, in Asia/Kolkata with a Tuesday window from
  09:00 to 12:00, and the database after the slot at 03:30 UTC of Tuesday 2025-10-28 has
  been booked.
\<close>

definition kolkata_db :: db where
  "kolkata_db = coach_with_window ''Asia/Kolkata'' 2 ''09:00'' ''12:00''"

text \<open>A coach in America/Havana with a Sunday window from 10:00 to 11:00.\<close>

definition havana_db :: db where
  "havana_db =
     \<lparr>coaches = [\<lparr>c_id = 1, c_name = ''Coach A'', c_timezone = ''America/Havana''\<rparr>],
      users = [101],
      coach_availabilities =
        [\<lparr>a_id = 1, a_coach_id = 1, a_day_of_week = 0,
          a_start_time = ''10:00'', a_end_time = ''11:00''\<rparr>],
      bookings = [], next_coach_id = 2, next_availability_id = 2, next_booking_id = 1\<rparr>"

definition kolkata_booked :: db where
  "kolkata_booked =
     snd (PostBookingHandler example_platform kolkata_db (book ''2025-10-28T03:30:00Z''))"

section \<open>The slot walk and the availability loop\<close>

lemma slot_step_pos: "0 < 30 * Minute_d"
  by (simp add: Minute_d_def)

lemma window_slots_mem:
  "(t \<in> set (window_slots s e)) =
   ((\<exists>k::nat. t = s + int k * (30 * Minute_d)) \<and> t + 30 * Minute_d \<le> e)"
proof (induction s e rule: window_slots.induct)
  case (1 s e)
  let ?d = "30 * Minute_d"
  have dpos: "0 < ?d" by (rule slot_step_pos)
  show ?case
  proof (cases "s + ?d > e")
    case True
    have "\<not> ((\<exists>k::nat. t = s + int k * ?d) \<and> t + ?d \<le> e)"
    proof
      assume "(\<exists>k::nat. t = s + int k * ?d) \<and> t + ?d \<le> e"
      then obtain k :: nat where k: "t = s + int k * ?d" and le: "t + ?d \<le> e" by blast
      have "0 \<le> int k * ?d" using dpos by simp
      with k le True show False by linarith
    qed
    moreover have "window_slots s e = []" using True by (subst window_slots.simps) simp
    ultimately show ?thesis by simp
  next
    case False
    then have unfold: "window_slots s e = s # window_slots (s + ?d) e"
      by (subst window_slots.simps) simp
    have IH: "(t \<in> set (window_slots (s + ?d) e)) =
        ((\<exists>k::nat. t = s + ?d + int k * ?d) \<and> t + ?d \<le> e)"
      using "1.IH" False by simp
    show ?thesis
    proof
      assume "t \<in> set (window_slots s e)"
      then consider "t = s" | "t \<in> set (window_slots (s + ?d) e)" using unfold by auto
      then show "(\<exists>k::nat. t = s + int k * ?d) \<and> t + ?d \<le> e"
      proof cases
        case 1
        have "t = s + int 0 * ?d" using 1 by simp
        then have "\<exists>k::nat. t = s + int k * ?d" by blast
        with 1 False show ?thesis by simp
      next
        case 2
        with IH obtain k :: nat where k: "t = s + ?d + int k * ?d" and le: "t + ?d \<le> e" by blast
        have "t = s + int (Suc k) * ?d" using k by (simp add: algebra_simps)
        then have "\<exists>k::nat. t = s + int k * ?d" by blast
        with le show ?thesis by simp
      qed
    next
      assume "(\<exists>k::nat. t = s + int k * ?d) \<and> t + ?d \<le> e"
      then obtain k :: nat where k: "t = s + int k * ?d" and le: "t + ?d \<le> e" by blast
      show "t \<in> set (window_slots s e)"
      proof (cases k)
        case 0
        with k unfold show ?thesis by simp
      next
        case (Suc j)
        with k have "t = s + ?d + int j * ?d" by (simp add: algebra_simps)
        then have "\<exists>k::nat. t = s + ?d + int k * ?d" by blast
        with le IH unfold show ?thesis by simp
      qed
    qed
  qed
qed

lemma window_slots_short: "e - s < 30 * Minute_d \<Longrightarrow> window_slots s e = []"
  by (subst window_slots.simps) simp

lemma window_slots_length:
  "s \<le> e \<Longrightarrow> int (length (window_slots s e)) = (e - s) div (30 * Minute_d)"
proof (induction s e rule: window_slots.induct)
  case (1 s e)
  let ?d = "30 * Minute_d"
  have dpos: "0 < ?d" by (rule slot_step_pos)
  show ?case
  proof (cases "s + ?d > e")
    case True
    then have "window_slots s e = []" by (subst window_slots.simps) simp
    moreover have "(e - s) div ?d = 0" using True "1.prems" dpos by (simp add: div_pos_pos_trivial)
    ultimately show ?thesis by simp
  next
    case False
    then have unfold: "window_slots s e = s # window_slots (s + ?d) e"
      by (subst window_slots.simps) simp
    have "int (length (window_slots (s + ?d) e)) = (e - (s + ?d)) div ?d"
      using "1.IH" False by simp
    moreover have "(e - s) div ?d = (e - (s + ?d)) div ?d + 1"
    proof -
      have "e - s = (e - (s + ?d)) + 1 * ?d" by simp
      then have "(e - s) div ?d = ((e - (s + ?d)) + 1 * ?d) div ?d" by simp
      also have "\<dots> = (e - (s + ?d)) div ?d + 1" using dpos by (subst div_mult_self1) simp_all
      finally show ?thesis .
    qed
    ultimately show ?thesis using unfold by simp
  qed
qed

lemma allowed_iff:
  "allowed loc t day rows =
   (\<exists>(S, E) \<in> set rows. anchor loc day S \<le> t \<and> t + 30 * Minute_d \<le> anchor loc day E)"
  by (induction rows) (auto simp: not_less)

lemma coach_timezone_None: "(coach_timezone s (Some k) = None) = (\<not> coach_exists s k)"
  by (auto simp: coach_timezone_def coach_exists_def find_None_iff find_Some_iff
      split: option.splits)

lemma Minute_range: "0 \<le> Minute t \<and> Minute t < 60"
  by (simp add: Minute_def)

lemma boundary_iff:
  "IsOnThirtyMinuteBoundary t =
   ((Minute t = 0 \<or> Minute t = 30) \<and> Second t = 0 \<and> Nanosecond t = 0)"
proof -
  have "0 \<le> Minute t" "Minute t < 60" using Minute_range by auto
  then have "(Minute t mod 30 = 0) = (Minute t = 0 \<or> Minute t = 30)" by presburger
  then show ?thesis by (simp add: IsOnThirtyMinuteBoundary_def)
qed

lemma availabilities_for_ex:
  "(\<exists>(S, E) \<in> set (availabilities_for s (Some k) w). Q S E) =
   (\<exists>a \<in> set (coach_availabilities s).
      a_coach_id a = k \<and> a_day_of_week a = w \<and> Q (a_start_time a) (a_end_time a))"
  by (force simp: availabilities_for_def)

lemma slot_allowed_iff:
  "slot_allowed s loc k t =
   (\<exists>a \<in> set (coach_availabilities s).
      a_coach_id a = k \<and>
      a_day_of_week a = weekday_of_day (local_day loc (Date (local_day loc t) 0 0 loc)) \<and>
      anchor loc (local_day loc (Date (local_day loc t) 0 0 loc)) (a_start_time a) \<le> t \<and>
      t + 30 * Minute_d \<le> anchor loc (local_day loc (Date (local_day loc t) 0 0 loc)) (a_end_time a))"
  unfolding slot_allowed_def Let_def allowed_iff Weekday_def availabilities_for_ex
  by blast

lemma insert_booking_not_outside: "insert_booking s u k t e \<noteq> (Inl OutsideAvailability, s')"
  by (simp add: insert_booking_def)

lemma coach_timezone_exists:
  "coach_timezone s (Some k) = Some tz \<Longrightarrow> coach_exists s k"
  using coach_timezone_None [of s k] by auto

lemma filter_other_ids:
  "distinct (map f xs) \<Longrightarrow> x \<in> set xs \<Longrightarrow> filter (\<lambda>y. f y \<noteq> f x) xs = remove1 x xs"
proof (induction xs)
  case Nil
  then show ?case by simp
next
  case (Cons a xs)
  show ?case
  proof (cases "a = x")
    case True
    have "\<forall>y \<in> set xs. f y \<noteq> f x" using Cons.prems(1) True by (auto simp: image_iff)
    then have "filter (\<lambda>y. f y \<noteq> f x) xs = xs" by (simp add: filter_id_conv)
    with True show ?thesis by simp
  next
    case False
    then have "x \<in> set xs" using Cons.prems(2) by simp
    moreover have "f a \<noteq> f x" using Cons.prems(1) \<open>x \<in> set xs\<close> by auto
    moreover have "distinct (map f xs)" using Cons.prems(1) by simp
    ultimately show ?thesis using Cons.IH False by simp
  qed
qed

lemma find_append_first:
  "find Q xs = Some x \<Longrightarrow> find Q (xs @ ys) = Some x"
  by (induction xs) (auto split: if_splits)

lemma coach_timezone_coach:
  "coach_timezone s k = Some tz \<Longrightarrow> \<exists>c \<in> set (coaches s). c_timezone c = tz"
  by (auto simp: coach_timezone_def find_Some_iff split: option.splits)

text \<open>
  In a zone without transitions the local midnight that \<open>time.Date\<close> builds for a date
  lies on that date.
\<close>

lemma fixed_offset_midnight: "tx loc = [] \<Longrightarrow> local_day loc (Date d 0 0 loc) = d"
  by (simp add: local_day_def Date_def lookup_def offset_at_def unix_def Let_def alpha_def omega_def)

text \<open>
  In America/Havana the local midnight of Sunday 2025-03-09 does not exist, and
  \<open>time.Date\<close> answers with 23:00 of Saturday. \<open>PostBookingHandler\<close> takes its date and
  weekday from that instant, so a request for 10:00 local time of the Sunday (14:00 UTC)
  is refused although the Sunday window from 10:00 to 11:00 holds it.
\<close>

lemma havana_skipped_midnight:
  "local_day America_Havana (utc_time 2025 3 9 14 0) = civil_day 2025 3 9 \<and>
   weekday_of_day (civil_day 2025 3 9) = 0 \<and>
   local_day America_Havana (Date (civil_day 2025 3 9) 0 0 America_Havana) = civil_day 2025 3 8 \<and>
   anchor America_Havana (civil_day 2025 3 9) ''10:00'' \<le> utc_time 2025 3 9 14 0 \<and>
   utc_time 2025 3 9 14 0 + 30 * Minute_d \<le> anchor America_Havana (civil_day 2025 3 9) ''11:00'' \<and>
   PostBookingHandler example_platform havana_db (book ''2025-03-09T14:00:00Z'') =
     (Inl OutsideAvailability, havana_db)"
  by code_simp

section \<open>What the reachable states satisfy\<close>

lemma admitted_more:
  assumes "admitted P s b"
    and "\<And>k tz. coach_timezone s (Some k) = Some tz \<Longrightarrow> coach_timezone s' (Some k) = Some tz"
    and "set (coach_availabilities s) \<subseteq> set (coach_availabilities s')"
  shows "admitted P s' b"
proof -
  from assms(1) obtain tz loc where
    c: "b_coach_id b \<noteq> 0" "IsOnThirtyMinuteBoundary (b_start_time b)" and
    tz: "coach_timezone s (Some (b_coach_id b)) = Some tz" and
    loc: "LoadLocation P tz = Some loc" and
    al: "slot_allowed s loc (b_coach_id b) (b_start_time b)"
    by (auto simp: admitted_def)
  from al assms(3) have "slot_allowed s' loc (b_coach_id b) (b_start_time b)"
    unfolding slot_allowed_iff by blast
  with c assms(2) [OF tz] loc show ?thesis by (auto simp: admitted_def)
qed

lemma db_inv_empty: "db_inv P (empty_db us)"
  by (simp add: db_inv_def empty_db_def)

lemma db_inv_coach:
  assumes "db_inv P s"
  shows "db_inv P (snd (CreateCoachHandler P s req))"
proof (cases "bind_coach req \<and> LoadLocation P (cc_Timezone req) \<noteq> None")
  case False
  then have "snd (CreateCoachHandler P s req) = s" by (auto simp: CreateCoachHandler_def)
  with assms show ?thesis by simp
next
  case True
  define c where "c = \<lparr>c_id = next_coach_id s, c_name = cc_Name req, c_timezone = cc_Timezone req\<rparr>"
  define s' where "s' = s\<lparr>coaches := coaches s @ [c], next_coach_id := next_coach_id s + 1\<rparr>"
  have eq: "snd (CreateCoachHandler P s req) = s'"
    using True by (simp add: CreateCoachHandler_def s'_def c_def)
  have tzs: "\<And>k tz. coach_timezone s (Some k) = Some tz \<Longrightarrow> coach_timezone s' (Some k) = Some tz"
    by (auto simp: coach_timezone_def s'_def find_append_first split: option.splits)
  have av: "coach_availabilities s' = coach_availabilities s" by (simp add: s'_def)
  have bk: "bookings s' = bookings s" "next_booking_id s' = next_booking_id s" by (simp_all add: s'_def)
  have adm: "\<forall>b \<in> set (bookings s'). admitted P s' b"
  proof
    fix b assume "b \<in> set (bookings s')"
    then have "admitted P s b" using assms bk by (simp add: db_inv_def)
    then show "admitted P s' b" by (rule admitted_more) (use tzs av in auto)
  qed
  have co: "\<forall>c \<in> set (coaches s'). LoadLocation P (c_timezone c) \<noteq> None"
    using assms True by (auto simp: db_inv_def s'_def c_def)
  from assms co adm bk have "db_inv P s'" by (simp add: db_inv_def)
  with eq show ?thesis by simp
qed

lemma db_inv_availability:
  assumes "db_inv P s"
  shows "db_inv P (snd (PostAvailabilityHandler s av))"
proof (cases "snd (PostAvailabilityHandler s av) = s")
  case True
  with assms show ?thesis by simp
next
  case False
  define a where "a = \<lparr>a_id = next_availability_id s, a_coach_id = av_CoachID av,
      a_day_of_week = av_Day av, a_start_time = av_StartTime av, a_end_time = av_EndTime av\<rparr>"
  define s' where "s' = s\<lparr>coach_availabilities := coach_availabilities s @ [a],
      next_availability_id := next_availability_id s + 1\<rparr>"
  have eq: "snd (PostAvailabilityHandler s av) = s'"
    using False by (auto simp: PostAvailabilityHandler_def s'_def a_def split: if_splits)
  have tzs: "\<And>k tz. coach_timezone s (Some k) = Some tz \<Longrightarrow> coach_timezone s' (Some k) = Some tz"
    by (simp add: coach_timezone_def s'_def)
  have av: "set (coach_availabilities s) \<subseteq> set (coach_availabilities s')" by (auto simp: s'_def)
  have bk: "bookings s' = bookings s" "next_booking_id s' = next_booking_id s"
    "coaches s' = coaches s" by (simp_all add: s'_def)
  have adm: "\<forall>b \<in> set (bookings s'). admitted P s' b"
  proof
    fix b assume "b \<in> set (bookings s')"
    then have "admitted P s b" using assms bk by (simp add: db_inv_def)
    then show "admitted P s' b" by (rule admitted_more) (use tzs av in auto)
  qed
  from assms adm bk have "db_inv P s'" by (simp add: db_inv_def)
  with eq show ?thesis by simp
qed

lemma db_inv_booking:
  assumes "db_inv P s"
  shows "db_inv P (snd (PostBookingHandler P s r))"
proof (cases "snd (PostBookingHandler P s r) = s")
  case True
  with assms show ?thesis by simp
next
  case False
  then obtain t tz loc where
    bind: "bind_booking r" and
    parse: "Parse_RFC3339 P (bk_Datetime r) = Some t" and
    tz: "coach_timezone s (Some (bk_CoachID r)) = Some tz" and
    aligned: "IsOnThirtyMinuteBoundary t" and
    loc: "LoadLocation P tz = Some loc" and
    al: "slot_allowed s loc (bk_CoachID r) t" and
    ins: "snd (insert_booking s (bk_UserID r) (bk_CoachID r) t (t + 30 * Minute_d)) \<noteq> s"
    by (auto simp: PostBookingHandler_def split: if_splits option.splits)
  define nb where "nb = \<lparr>b_id = next_booking_id s, b_user_id = bk_UserID r,
      b_coach_id = bk_CoachID r, b_start_time = t, b_end_time = t + 30 * Minute_d\<rparr>"
  define s' where "s' = s\<lparr>bookings := bookings s @ [nb], next_booking_id := next_booking_id s + 1\<rparr>"
  from ins have free: "\<not> slot_taken s (bk_CoachID r) t"
    by (auto simp: insert_booking_def split: if_splits)
  from ins have eq0: "snd (insert_booking s (bk_UserID r) (bk_CoachID r) t (t + 30 * Minute_d)) = s'"
    by (auto simp: insert_booking_def s'_def nb_def split: if_splits)
  have eq: "snd (PostBookingHandler P s r) = s'"
    using bind parse tz aligned loc al eq0 by (simp add: PostBookingHandler_def)
  have same: "coaches s' = coaches s" "coach_availabilities s' = coach_availabilities s"
    by (simp_all add: s'_def)
  have tzs: "\<And>k z. coach_timezone s (Some k) = Some z \<Longrightarrow> coach_timezone s' (Some k) = Some z"
    by (simp add: coach_timezone_def same)
  have new: "admitted P s nb"
    using bind tz aligned loc al by (auto simp: admitted_def nb_def bind_booking_def)
  have adm: "\<forall>b \<in> set (bookings s'). admitted P s' b"
  proof
    fix b assume "b \<in> set (bookings s')"
    then have "admitted P s b" using assms new by (auto simp: db_inv_def s'_def)
    then show "admitted P s' b" by (rule admitted_more) (use tzs same in auto)
  qed
  have ids: "\<forall>b \<in> set (bookings s'). b_id b < next_booking_id s'"
    using assms by (auto simp: db_inv_def s'_def nb_def)
  have "b_id nb \<notin> b_id ` set (bookings s)"
    using assms by (auto simp: db_inv_def nb_def)
  then have d1: "distinct (map b_id (bookings s'))"
    using assms by (simp add: db_inv_def s'_def)
  have "(b_coach_id nb, b_start_time nb) \<notin> (\<lambda>b. (b_coach_id b, b_start_time b)) ` set (bookings s)"
    using free by (auto simp: slot_taken_def nb_def)
  then have d2: "distinct (map (\<lambda>b. (b_coach_id b, b_start_time b)) (bookings s'))"
    using assms by (simp add: db_inv_def s'_def)
  have co: "\<forall>c \<in> set (coaches s'). LoadLocation P (c_timezone c) \<noteq> None"
    using assms same by (simp add: db_inv_def)
  from co ids d1 d2 adm have "db_inv P s'" by (simp add: db_inv_def)
  with eq show ?thesis by simp
qed

lemma db_inv_cancel:
  assumes "db_inv P s"
  shows "db_inv P (snd (CancelBookingHandler P s bid))"
proof (cases "snd (CancelBookingHandler P s bid) = s")
  case True
  with assms show ?thesis by simp
next
  case False
  define s' where "s' = s\<lparr>bookings := filter (\<lambda>b. Some (b_id b) \<noteq> sql_int P bid) (bookings s)\<rparr>"
  have eq: "snd (CancelBookingHandler P s bid) = s'"
    using False by (auto simp: CancelBookingHandler_def s'_def Let_def split: if_splits)
  have same: "coaches s' = coaches s" "coach_availabilities s' = coach_availabilities s"
    "next_booking_id s' = next_booking_id s" by (simp_all add: s'_def)
  have sub: "set (bookings s') \<subseteq> set (bookings s)" by (auto simp: s'_def)
  have tzs: "\<And>k z. coach_timezone s (Some k) = Some z \<Longrightarrow> coach_timezone s' (Some k) = Some z"
    by (simp add: coach_timezone_def same)
  have adm: "\<forall>b \<in> set (bookings s'). admitted P s' b"
  proof
    fix b assume "b \<in> set (bookings s')"
    then have "admitted P s b" using assms sub by (auto simp: db_inv_def)
    then show "admitted P s' b" by (rule admitted_more) (use tzs same in auto)
  qed
  have ids: "\<forall>b \<in> set (bookings s'). b_id b < next_booking_id s'"
    using assms sub same by (auto simp: db_inv_def)
  have d1: "distinct (map b_id (bookings s'))"
    using assms by (simp add: db_inv_def s'_def distinct_map_filter)
  have d2: "distinct (map (\<lambda>b. (b_coach_id b, b_start_time b)) (bookings s'))"
    using assms by (simp add: db_inv_def s'_def distinct_map_filter)
  have co: "\<forall>c \<in> set (coaches s'). LoadLocation P (c_timezone c) \<noteq> None"
    using assms same by (simp add: db_inv_def)
  from co ids d1 d2 adm have "db_inv P s'" by (simp add: db_inv_def)
  with eq show ?thesis by simp
qed

lemma reachable_db_inv: "reachable P s \<Longrightarrow> db_inv P s"
proof (induction rule: reachable.induct)
  case (reach_empty us)
  show ?case by (rule db_inv_empty)
next
  case (reach_coach s req)
  then show ?case by (simp add: db_inv_coach)
next
  case (reach_availability s av)
  then show ?case by (simp add: db_inv_availability)
next
  case (reach_booking s bk)
  then show ?case by (simp add: db_inv_booking)
next
  case (reach_cancel s bid)
  then show ?case by (simp add: db_inv_cancel)
qed

lemma kolkata_db_reachable: "reachable example_platform kolkata_db"
  unfolding kolkata_db_def coach_with_window_def
  by (intro reach_availability reach_coach reach_empty)

lemma kolkata_booked_reachable: "reachable example_platform kolkata_booked"
  unfolding kolkata_booked_def by (intro reach_booking kolkata_db_reachable)

section \<open>Slot queries\<close>

text \<open>
  The example of the specification: a coach in Asia/Kolkata with a Tuesday window from
  09:00 to 12:00, asked for Tuesday 2025-10-28, has the six slots from 03:30 to 06:00 UTC.
\<close>

lemma kolkata_tuesday_slots:
  "GetSlotsHandler example_platform
     (coach_with_window ''Asia/Kolkata'' 2 ''09:00'' ''12:00'') ''1'' ''2025-10-28'' =
   Inr ([unix (utc_time 2025 10 28 3 30), unix (utc_time 2025 10 28 4 0),
         unix (utc_time 2025 10 28 4 30), unix (utc_time 2025 10 28 5 0),
         unix (utc_time 2025 10 28 5 30), unix (utc_time 2025 10 28 6 0)], ''Asia/Kolkata'')"
  by code_simp

text \<open>
  C1. The walk itself is as the specification describes it (\<open>window_slots_mem\<close>,
  \<open>window_slots_short\<close>, \<open>window_slots_length\<close>), and so is the Asia/Kolkata example
  (\<open>kolkata_tuesday_slots\<close>). The windows that are walked are not always the ones of the
  requested date's weekday: a coach in America/New_York has a Tuesday window from 09:00
  to 12:00, the requested date 2025-10-28 is a Tuesday, the walk over that window
  anchored onto the date would give the six slots from 13:00 to 15:30 UTC, and the
  handler answers with no slot at all.
\<close>

theorem new_york_tuesday_window_not_walked:
  "coach_availabilities (coach_with_window ''America/New_York'' 2 ''09:00'' ''12:00'') =
     [\<lparr>a_id = 1, a_coach_id = 1, a_day_of_week = 2,
       a_start_time = ''09:00'', a_end_time = ''12:00''\<rparr>] \<and>
   weekday_of_day (civil_day 2025 10 28) = 2 \<and>
   window_slots (anchor America_New_York (civil_day 2025 10 28) ''09:00'')
                (anchor America_New_York (civil_day 2025 10 28) ''12:00'') =
     [utc_time 2025 10 28 13 0, utc_time 2025 10 28 13 30, utc_time 2025 10 28 14 0,
      utc_time 2025 10 28 14 30, utc_time 2025 10 28 15 0, utc_time 2025 10 28 15 30] \<and>
   GetSlotsHandler example_platform
     (coach_with_window ''America/New_York'' 2 ''09:00'' ''12:00'') ''1'' ''2025-10-28'' =
   Inr ([], ''America/New_York'')"
  by code_simp

text \<open>
  C4. For the date 2025-10-28, a Tuesday (weekday 2), and a coach in America/New_York
  the handler selects the windows of weekday 1: midnight UTC of the date is 20:00 of
  Monday in New York. A Monday window is therefore served on the Tuesday.
\<close>

theorem new_york_weekday_is_previous_day:
  "weekday_of_day (civil_day 2025 10 28) = 2 \<and>
   Weekday America_New_York (civil_day 2025 10 28 * 86400 * 1000000000) = 1 \<and>
   GetSlotsHandler example_platform
     (coach_with_window ''America/New_York'' 1 ''09:00'' ''12:00'') ''1'' ''2025-10-28'' =
   Inr ([unix (utc_time 2025 10 28 13 0), unix (utc_time 2025 10 28 13 30),
         unix (utc_time 2025 10 28 14 0), unix (utc_time 2025 10 28 14 30),
         unix (utc_time 2025 10 28 15 0), unix (utc_time 2025 10 28 15 30)],
        ''America/New_York'')"
  by code_simp

text \<open>
  C5. A coach in Africa/Cairo has a Thursday window from 23:00 to 23:30. On Thursday
  2025-10-30, a day of 25 hours, the slot at 23:00 local time is 21:00 UTC and lies on
  that local date. Booking it succeeds, and the slot query for the date still lists it:
  the bookings are read up to 24 hours after the local midnight, which is 21:00 UTC,
  exclusive.
\<close>

theorem cairo_booked_slot_reappears:
  "local_day Africa_Cairo (utc_time 2025 10 30 21 0) = civil_day 2025 10 30 \<and>
   fst (PostBookingHandler example_platform
          (coach_with_window ''Africa/Cairo'' 4 ''23:00'' ''23:30'')
          (book ''2025-10-30T21:00:00Z'')) = Inr (unix (utc_time 2025 10 30 21 0)) \<and>
   GetSlotsHandler example_platform
     (snd (PostBookingHandler example_platform
             (coach_with_window ''Africa/Cairo'' 4 ''23:00'' ''23:30'')
             (book ''2025-10-30T21:00:00Z''))) ''1'' ''2025-10-30'' =
   Inr ([unix (utc_time 2025 10 30 21 0)], ''Africa/Cairo'')"
  by code_simp

section \<open>Availability windows\<close>

text \<open>
  C7. The request with start time 10:00 and end time 9:00 passes every check of
  \<open>PostAvailabilityHandler\<close>: both strings parse, and as strings "10:00" is below
  "9:00". The window is stored with its start after its end.
\<close>

theorem window_with_start_after_end_stored:
  "Parse_clock ''10:00'' = Some (10, 0) \<and> Parse_clock ''9:00'' = Some (9, 0) \<and>
   fst (PostAvailabilityHandler
          (snd (CreateCoachHandler example_platform (empty_db [101])
                  \<lparr>cc_Name = ''Coach A'', cc_Timezone = ''Asia/Kolkata''\<rparr>))
          \<lparr>av_CoachID = 1, av_Day = 2, av_StartTime = ''10:00'', av_EndTime = ''9:00''\<rparr>) =
     Inr 1 \<and>
   coach_availabilities (coach_with_window ''Asia/Kolkata'' 2 ''10:00'' ''9:00'') =
     [\<lparr>a_id = 1, a_coach_id = 1, a_day_of_week = 2,
       a_start_time = ''10:00'', a_end_time = ''9:00''\<rparr>]"
  by code_simp

text \<open>
  C9. \<open>PostAvailabilityHandler\<close> never answers \<open>CoachNotFound\<close>. For a coach id that
  no row of \<open>coaches\<close> carries it stores nothing, and its answer is \<open>MalformedInput\<close>
  when the request fails a check of the handler and \<open>StorageError\<close>, from the foreign
  key \<open>fk_ca_coach\<close>, when the request is well formed. \<open>GetSlotsHandler\<close> and
  \<open>PostBookingHandler\<close> answer \<open>CoachNotFound\<close> for the same coach id.
\<close>

theorem availability_has_no_coach_check:
  assumes "\<not> coach_exists s (av_CoachID r)"
  shows
    "fst (PostAvailabilityHandler s r) \<noteq> Inl CoachNotFound \<and>
     snd (PostAvailabilityHandler s r) = s \<and>
     (fst (PostAvailabilityHandler s r) = Inl MalformedInput \<or>
      fst (PostAvailabilityHandler s r) = Inl StorageError) \<and>
     ((bind_availability r \<and> 0 \<le> av_Day r \<and> av_Day r \<le> 6 \<and>
       Parse_clock (av_StartTime r) \<noteq> None \<and> Parse_clock (av_EndTime r) \<noteq> None \<and>
       string_less (av_StartTime r) (av_EndTime r)) \<longrightarrow>
      PostAvailabilityHandler s r = (Inl StorageError, s)) \<and>
     ((coachID \<noteq> [] \<and> dateStr \<noteq> [] \<and> Parse_date P dateStr \<noteq> None \<and>
       sql_int P coachID = Some (av_CoachID r)) \<longrightarrow>
      GetSlotsHandler P s coachID dateStr = Inl CoachNotFound) \<and>
     ((bind_booking bk \<and> Parse_RFC3339 P (bk_Datetime bk) \<noteq> None \<and>
       bk_CoachID bk = av_CoachID r) \<longrightarrow>
      PostBookingHandler P s bk = (Inl CoachNotFound, s))"
proof -
  have none: "coach_timezone s (Some (av_CoachID r)) = None"
    using assms by (simp add: coach_timezone_None)
  have a: "fst (PostAvailabilityHandler s r) \<noteq> Inl CoachNotFound"
    by (simp add: PostAvailabilityHandler_def)
  have b: "snd (PostAvailabilityHandler s r) = s"
    using assms by (simp add: PostAvailabilityHandler_def)
  have c: "fst (PostAvailabilityHandler s r) = Inl MalformedInput \<or>
      fst (PostAvailabilityHandler s r) = Inl StorageError"
    using assms by (simp add: PostAvailabilityHandler_def)
  have d: "(bind_availability r \<and> 0 \<le> av_Day r \<and> av_Day r \<le> 6 \<and>
       Parse_clock (av_StartTime r) \<noteq> None \<and> Parse_clock (av_EndTime r) \<noteq> None \<and>
       string_less (av_StartTime r) (av_EndTime r)) \<longrightarrow>
      PostAvailabilityHandler s r = (Inl StorageError, s)"
    using assms by (auto simp: PostAvailabilityHandler_def)
  have e: "(coachID \<noteq> [] \<and> dateStr \<noteq> [] \<and> Parse_date P dateStr \<noteq> None \<and>
       sql_int P coachID = Some (av_CoachID r)) \<longrightarrow>
      GetSlotsHandler P s coachID dateStr = Inl CoachNotFound"
    using none by (auto simp: GetSlotsHandler_def)
  have f: "(bind_booking bk \<and> Parse_RFC3339 P (bk_Datetime bk) \<noteq> None \<and>
       bk_CoachID bk = av_CoachID r) \<longrightarrow>
      PostBookingHandler P s bk = (Inl CoachNotFound, s)"
    using none by (auto simp: PostBookingHandler_def)
  from a b c d e f show ?thesis by blast
qed

theorem availability_has_no_coach_check_witness:
  "PostAvailabilityHandler (empty_db [101])
     \<lparr>av_CoachID = 1, av_Day = 2, av_StartTime = ''09:00'', av_EndTime = ''12:00''\<rparr> =
     (Inl StorageError, empty_db [101]) \<and>
   GetSlotsHandler example_platform (empty_db [101]) ''1'' ''2025-10-28'' = Inl CoachNotFound \<and>
   PostBookingHandler example_platform (empty_db [101]) (book ''2025-10-28T03:30:00Z'') =
     (Inl CoachNotFound, empty_db [101])"
proof -
  let ?r = "\<lparr>av_CoachID = 1, av_Day = 2, av_StartTime = ''09:00'', av_EndTime = ''12:00''\<rparr>"
  have h: "\<not> coach_exists (empty_db [101]) (av_CoachID ?r)" by code_simp
  have wf: "bind_availability ?r \<and> 0 \<le> av_Day ?r \<and> av_Day ?r \<le> 6 \<and>
      Parse_clock (av_StartTime ?r) \<noteq> None \<and> Parse_clock (av_EndTime ?r) \<noteq> None \<and>
      string_less (av_StartTime ?r) (av_EndTime ?r)" by code_simp
  have q: "''1'' \<noteq> [] \<and> ''2025-10-28'' \<noteq> [] \<and>
      Parse_date example_platform ''2025-10-28'' \<noteq> None \<and>
      sql_int example_platform ''1'' = Some (av_CoachID ?r)" by code_simp
  have p: "bind_booking (book ''2025-10-28T03:30:00Z'') \<and>
      Parse_RFC3339 example_platform (bk_Datetime (book ''2025-10-28T03:30:00Z'')) \<noteq> None \<and>
      bk_CoachID (book ''2025-10-28T03:30:00Z'') = av_CoachID ?r" by code_simp
  from availability_has_no_coach_check
    [OF h, of "''1''" "''2025-10-28''" example_platform "book ''2025-10-28T03:30:00Z''"]
    wf q p
  show ?thesis by blast
qed

section \<open>Booking requests\<close>

text \<open>
  C6, as stated: a request whose start is 03:45 UTC, for a coach that does not exist,
  fails with \<open>CoachNotFound\<close>, not with \<open>BoundaryViolation\<close>.
\<close>

theorem misaligned_unknown_coach_not_found:
  "Parse_RFC3339 example_platform ''2025-10-28T03:45:00Z'' = Some (utc_time 2025 10 28 3 45) \<and>
   Minute (utc_time 2025 10 28 3 45) = 45 \<and>
   PostBookingHandler example_platform (empty_db [101]) (book ''2025-10-28T03:45:00Z'') =
     (Inl CoachNotFound, empty_db [101])"
  by code_simp

text \<open>
  C6, amended: for every request that binds and parses and names an existing coach, a
  start whose UTC minute is neither 0 nor 30, or whose seconds or nanoseconds are not
  zero, fails with \<open>BoundaryViolation\<close> whatever the availability windows are, and the
  database is left as it was.
\<close>

theorem misaligned_booking_rejected:
  assumes "bind_booking r"
    and "Parse_RFC3339 P (bk_Datetime r) = Some start"
    and "coach_exists s (bk_CoachID r)"
    and "(Minute start \<noteq> 0 \<and> Minute start \<noteq> 30) \<or> Second start \<noteq> 0 \<or> Nanosecond start \<noteq> 0"
  shows "PostBookingHandler P s r = (Inl BoundaryViolation, s)"
proof -
  from assms(3) obtain tz where tz: "coach_timezone s (Some (bk_CoachID r)) = Some tz"
    using coach_timezone_None [of s "bk_CoachID r"]
    by (cases "coach_timezone s (Some (bk_CoachID r))") auto
  from assms(4) have "\<not> IsOnThirtyMinuteBoundary start" by (auto simp: boundary_iff)
  with assms(1,2) tz show ?thesis by (simp add: PostBookingHandler_def)
qed

theorem misaligned_booking_rejected_witness:
  "PostBookingHandler example_platform
     (coach_with_window ''Asia/Kolkata'' 2 ''09:00'' ''12:00'') (book ''2025-10-28T03:45:00Z'') =
   (Inl BoundaryViolation, coach_with_window ''Asia/Kolkata'' 2 ''09:00'' ''12:00'')"
proof -
  have h1: "bind_booking (book ''2025-10-28T03:45:00Z'')" by code_simp
  have h2: "Parse_RFC3339 example_platform (bk_Datetime (book ''2025-10-28T03:45:00Z'')) =
      Some (utc_time 2025 10 28 3 45)" by code_simp
  have h3: "coach_exists (coach_with_window ''Asia/Kolkata'' 2 ''09:00'' ''12:00'')
      (bk_CoachID (book ''2025-10-28T03:45:00Z''))" by code_simp
  have h4: "(Minute (utc_time 2025 10 28 3 45) \<noteq> 0 \<and> Minute (utc_time 2025 10 28 3 45) \<noteq> 30) \<or>
      Second (utc_time 2025 10 28 3 45) \<noteq> 0 \<or> Nanosecond (utc_time 2025 10 28 3 45) \<noteq> 0"
    by code_simp
  show ?thesis by (rule misaligned_booking_rejected [OF h1 h2 h3 h4])
qed

text \<open>
  C3, as stated: the slot at 03:30 UTC of Tuesday 2025-10-28 lies in the Tuesday window
  of the coach in Asia/Kolkata (09:00 to 12:00 local time), the request is well formed
  and aligned, and it is not accepted: the slot is already booked and the answer is
  \<open>SlotConflict\<close>.
\<close>

theorem conflict_inside_window:
  "coach_availabilities kolkata_booked =
     [\<lparr>a_id = 1, a_coach_id = 1, a_day_of_week = 2,
       a_start_time = ''09:00'', a_end_time = ''12:00''\<rparr>] \<and>
   IsOnThirtyMinuteBoundary (utc_time 2025 10 28 3 30) \<and>
   weekday_of_day (local_day Asia_Kolkata (utc_time 2025 10 28 3 30)) = 2 \<and>
   anchor Asia_Kolkata (local_day Asia_Kolkata (utc_time 2025 10 28 3 30)) ''09:00''
     \<le> utc_time 2025 10 28 3 30 \<and>
   utc_time 2025 10 28 3 30 + 30 * Minute_d
     \<le> anchor Asia_Kolkata (local_day Asia_Kolkata (utc_time 2025 10 28 3 30)) ''12:00'' \<and>
   PostBookingHandler example_platform kolkata_booked (book ''2025-10-28T03:30:00Z'') =
     (Inl SlotConflict, kolkata_booked)"
  by code_simp

text \<open>
  C3, amended: for a request that binds and parses, is aligned, names an existing coach
  whose timezone loads, and whose local date has a local midnight that \<open>time.Date\<close>
  places on that date, \<open>PostBookingHandler\<close> answers \<open>OutsideAvailability\<close>, with
  the database unchanged, exactly when no availability window of the coach for the
  weekday of the instant's local date, anchored onto that date, satisfies
  \<open>windowStart \<le> requested\<close> and \<open>requested + 30min \<le> windowEnd\<close>. When some window
  does, the request goes on to the insert: \<open>SlotConflict\<close> when the coach already has a
  booking at that start, \<open>StorageError\<close> when the user row is missing, and the booking
  is stored otherwise.
\<close>

theorem booking_availability_check:
  assumes "bind_booking r"
    and "Parse_RFC3339 P (bk_Datetime r) = Some t"
    and "coach_timezone s (Some (bk_CoachID r)) = Some tz"
    and "LoadLocation P tz = Some loc"
    and "IsOnThirtyMinuteBoundary t"
    and "local_day loc (Date (local_day loc t) 0 0 loc) = local_day loc t"
  shows
    "(PostBookingHandler P s r = (Inl OutsideAvailability, s)) =
       (\<not> (\<exists>a \<in> set (coach_availabilities s).
              a_coach_id a = bk_CoachID r \<and>
              a_day_of_week a = weekday_of_day (local_day loc t) \<and>
              anchor loc (local_day loc t) (a_start_time a) \<le> t \<and>
              t + 30 * Minute_d \<le> anchor loc (local_day loc t) (a_end_time a))) \<and>
     ((\<exists>a \<in> set (coach_availabilities s).
              a_coach_id a = bk_CoachID r \<and>
              a_day_of_week a = weekday_of_day (local_day loc t) \<and>
              anchor loc (local_day loc t) (a_start_time a) \<le> t \<and>
              t + 30 * Minute_d \<le> anchor loc (local_day loc t) (a_end_time a)) \<longrightarrow>
      PostBookingHandler P s r =
        (if slot_taken s (bk_CoachID r) t then (Inl SlotConflict, s)
         else if bk_UserID r \<notin> set (users s) then (Inl StorageError, s)
         else (Inr (Format_RFC3339 t),
               s\<lparr>bookings := bookings s @
                    [\<lparr>b_id = next_booking_id s, b_user_id = bk_UserID r,
                      b_coach_id = bk_CoachID r, b_start_time = t,
                      b_end_time = t + 30 * Minute_d\<rparr>],
                 next_booking_id := next_booking_id s + 1\<rparr>)))"
proof -
  let ?W = "\<exists>a \<in> set (coach_availabilities s).
              a_coach_id a = bk_CoachID r \<and>
              a_day_of_week a = weekday_of_day (local_day loc t) \<and>
              anchor loc (local_day loc t) (a_start_time a) \<le> t \<and>
              t + 30 * Minute_d \<le> anchor loc (local_day loc t) (a_end_time a)"
  have allowed: "slot_allowed s loc (bk_CoachID r) t = ?W"
    by (simp add: slot_allowed_iff assms(6))
  have step: "PostBookingHandler P s r =
      (if \<not> slot_allowed s loc (bk_CoachID r) t then (Inl OutsideAvailability, s)
       else insert_booking s (bk_UserID r) (bk_CoachID r) t (t + 30 * Minute_d))"
    using assms(1-5) by (simp add: PostBookingHandler_def)
  have coach: "coach_exists s (bk_CoachID r)"
    using assms(3) by (rule coach_timezone_exists)
  have first: "(PostBookingHandler P s r = (Inl OutsideAvailability, s)) = (\<not> ?W)"
    using step allowed insert_booking_not_outside by auto
  have second: "?W \<longrightarrow> PostBookingHandler P s r =
        (if slot_taken s (bk_CoachID r) t then (Inl SlotConflict, s)
         else if bk_UserID r \<notin> set (users s) then (Inl StorageError, s)
         else (Inr (Format_RFC3339 t),
               s\<lparr>bookings := bookings s @
                    [\<lparr>b_id = next_booking_id s, b_user_id = bk_UserID r,
                      b_coach_id = bk_CoachID r, b_start_time = t,
                      b_end_time = t + 30 * Minute_d\<rparr>],
                 next_booking_id := next_booking_id s + 1\<rparr>))"
    using step allowed coach by (simp add: insert_booking_def)
  from first second show ?thesis by blast
qed

theorem booking_availability_check_witness:
  "PostBookingHandler example_platform kolkata_db (book ''2025-10-28T03:30:00Z'') \<noteq>
     (Inl OutsideAvailability, kolkata_db) \<and>
   fst (PostBookingHandler example_platform kolkata_db (book ''2025-10-28T03:30:00Z'')) =
     Inr (unix (utc_time 2025 10 28 3 30))"
proof -
  let ?r = "book ''2025-10-28T03:30:00Z''"
  let ?t = "utc_time 2025 10 28 3 30"
  have h1: "bind_booking ?r" by code_simp
  have h2: "Parse_RFC3339 example_platform (bk_Datetime ?r) = Some ?t" by code_simp
  have h3: "coach_timezone kolkata_db (Some (bk_CoachID ?r)) = Some ''Asia/Kolkata''" by code_simp
  have h4: "LoadLocation example_platform ''Asia/Kolkata'' = Some Asia_Kolkata" by code_simp
  have h5: "IsOnThirtyMinuteBoundary ?t" by code_simp
  have h6: "local_day Asia_Kolkata (Date (local_day Asia_Kolkata ?t) 0 0 Asia_Kolkata) =
      local_day Asia_Kolkata ?t" by code_simp
  have w: "\<exists>a \<in> set (coach_availabilities kolkata_db).
      a_coach_id a = bk_CoachID ?r \<and>
      a_day_of_week a = weekday_of_day (local_day Asia_Kolkata ?t) \<and>
      anchor Asia_Kolkata (local_day Asia_Kolkata ?t) (a_start_time a) \<le> ?t \<and>
      ?t + 30 * Minute_d \<le> anchor Asia_Kolkata (local_day Asia_Kolkata ?t) (a_end_time a)"
    by code_simp
  have free: "\<not> slot_taken kolkata_db (bk_CoachID ?r) ?t" "bk_UserID ?r \<in> set (users kolkata_db)"
    by code_simp+
  from booking_availability_check [OF h1 h2 h3 h4 h5 h6] w free show ?thesis
    by (simp add: Format_RFC3339_def)
qed

text \<open>
  C2, as stated: after the booking at 03:30 UTC has been created and then cancelled, a
  later request for the same coach and instant is accepted, not answered with
  \<open>SlotConflict\<close>.
\<close>

theorem rebook_after_cancel_succeeds:
  "fst (PostBookingHandler example_platform kolkata_db (book ''2025-10-28T03:30:00Z'')) =
     Inr (unix (utc_time 2025 10 28 3 30)) \<and>
   fst (CancelBookingHandler example_platform kolkata_booked ''1'') = Inr () \<and>
   fst (PostBookingHandler example_platform
          (snd (CancelBookingHandler example_platform kolkata_booked ''1''))
          (book ''2025-10-28T03:30:00Z'')) =
     Inr (unix (utc_time 2025 10 28 3 30))"
  by code_simp

text \<open>
  C2, amended: in every state the handlers reach, no two bookings of one coach share a
  start instant, and as long as a booking at (C, T) is in the ledger every request of an
  existing user for (C, T) is answered with \<open>SlotConflict\<close> and changes nothing.
\<close>

theorem booked_slot_conflicts:
  assumes "reachable P s"
  shows "(\<forall>b1 \<in> set (bookings s). \<forall>b2 \<in> set (bookings s).
            b_coach_id b1 = b_coach_id b2 \<and> b_start_time b1 = b_start_time b2 \<longrightarrow> b1 = b2) \<and>
         (\<forall>b \<in> set (bookings s). \<forall>r.
            bind_booking r \<and> bk_UserID r \<in> set (users s) \<and> bk_CoachID r = b_coach_id b \<and>
            Parse_RFC3339 P (bk_Datetime r) = Some (b_start_time b) \<longrightarrow>
            PostBookingHandler P s r = (Inl SlotConflict, s))"
proof -
  have inv: "db_inv P s" using assms by (rule reachable_db_inv)
  then have "inj_on (\<lambda>b. (b_coach_id b, b_start_time b)) (set (bookings s))"
    by (simp add: db_inv_def distinct_map)
  then have uniq: "\<forall>b1 \<in> set (bookings s). \<forall>b2 \<in> set (bookings s).
            b_coach_id b1 = b_coach_id b2 \<and> b_start_time b1 = b_start_time b2 \<longrightarrow> b1 = b2"
    by (auto simp: inj_on_def)
  have conflict: "PostBookingHandler P s r = (Inl SlotConflict, s)"
    if b: "b \<in> set (bookings s)" and r: "bind_booking r" "bk_CoachID r = b_coach_id b"
      "Parse_RFC3339 P (bk_Datetime r) = Some (b_start_time b)" for b r
  proof -
    from inv b have "admitted P s b" by (simp add: db_inv_def)
    then obtain tz loc where
      "IsOnThirtyMinuteBoundary (b_start_time b)"
      "coach_timezone s (Some (b_coach_id b)) = Some tz"
      "LoadLocation P tz = Some loc"
      "slot_allowed s loc (b_coach_id b) (b_start_time b)"
      by (auto simp: admitted_def)
    moreover have "slot_taken s (b_coach_id b) (b_start_time b)"
      using b by (auto simp: slot_taken_def)
    ultimately show ?thesis
      using r by (simp add: PostBookingHandler_def insert_booking_def)
  qed
  from uniq conflict show ?thesis by blast
qed

theorem booked_slot_conflicts_witness:
  "PostBookingHandler example_platform kolkata_booked (book ''2025-10-28T03:30:00Z'') =
     (Inl SlotConflict, kolkata_booked)"
proof -
  let ?b = "\<lparr>b_id = 1, b_user_id = 101, b_coach_id = 1,
      b_start_time = utc_time 2025 10 28 3 30,
      b_end_time = utc_time 2025 10 28 3 30 + 30 * Minute_d\<rparr>"
  have b: "?b \<in> set (bookings kolkata_booked)" by code_simp
  have r: "bind_booking (book ''2025-10-28T03:30:00Z'') \<and>
      bk_UserID (book ''2025-10-28T03:30:00Z'') \<in> set (users kolkata_booked) \<and>
      bk_CoachID (book ''2025-10-28T03:30:00Z'') = b_coach_id ?b \<and>
      Parse_RFC3339 example_platform (bk_Datetime (book ''2025-10-28T03:30:00Z'')) =
        Some (b_start_time ?b)" by code_simp
  from booked_slot_conflicts [OF kolkata_booked_reachable] b r show ?thesis by blast
qed

section \<open>Cancellation\<close>

text \<open>
  C8, as stated: no booking carries the id \<open>abc\<close>, and cancelling it is answered with
  \<open>StorageError\<close>, not with \<open>NotFound\<close>: the database refuses the \<open>DELETE\<close> and the
  handler reports the error of \<open>db.Exec\<close>.
\<close>

theorem cancel_non_numeric_id_storage_error:
  "bookings kolkata_booked =
     [\<lparr>b_id = 1, b_user_id = 101, b_coach_id = 1,
       b_start_time = utc_time 2025 10 28 3 30,
       b_end_time = utc_time 2025 10 28 4 0\<rparr>] \<and>
   CancelBookingHandler example_platform kolkata_booked ''abc'' =
     (Inl StorageError, kolkata_booked)"
  by code_simp

text \<open>
  C8, amended: for an id that the database reads as an integer, and with the primary
  key of \<open>bookings\<close> in force, cancelling the id of a booking answers with success and
  removes that booking and no other; cancelling the same id again, or any such id that
  no booking carries, answers \<open>NotFound\<close> and leaves the ledger as it was.
\<close>

theorem cancel_booking_outcomes:
  assumes "bid \<noteq> []" and "sql_exact P bid" and "distinct (map b_id (bookings s))"
  shows
    "(\<forall>b \<in> set (bookings s). sql_int P bid = Some (b_id b) \<longrightarrow>
        CancelBookingHandler P s bid = (Inr (), s\<lparr>bookings := remove1 b (bookings s)\<rparr>) \<and>
        CancelBookingHandler P (s\<lparr>bookings := remove1 b (bookings s)\<rparr>) bid =
          (Inl NotFound, s\<lparr>bookings := remove1 b (bookings s)\<rparr>)) \<and>
     ((\<forall>b \<in> set (bookings s). sql_int P bid \<noteq> Some (b_id b)) \<longrightarrow>
        CancelBookingHandler P s bid = (Inl NotFound, s))"
proof -
  have absent: "CancelBookingHandler P s' bid = (Inl NotFound, s')"
    if "\<forall>b \<in> set (bookings s'). sql_int P bid \<noteq> Some (b_id b)" for s'
  proof -
    have "filter (\<lambda>b. Some (b_id b) = sql_int P bid) (bookings s') = []"
      using that by (auto simp: filter_empty_conv)
    then show ?thesis using assms(1,2) by (simp add: CancelBookingHandler_def)
  qed
  have present: "CancelBookingHandler P s bid = (Inr (), s\<lparr>bookings := remove1 b (bookings s)\<rparr>) \<and>
        CancelBookingHandler P (s\<lparr>bookings := remove1 b (bookings s)\<rparr>) bid =
          (Inl NotFound, s\<lparr>bookings := remove1 b (bookings s)\<rparr>)"
    if b: "b \<in> set (bookings s)" and k: "sql_int P bid = Some (b_id b)" for b
  proof -
    have "filter (\<lambda>y. Some (b_id y) = sql_int P bid) (bookings s) \<noteq> []"
      using b k by (auto simp: filter_empty_conv)
    moreover have "filter (\<lambda>y. Some (b_id y) \<noteq> sql_int P bid) (bookings s) = remove1 b (bookings s)"
      using filter_other_ids [OF assms(3) b] k by simp
    ultimately have one: "CancelBookingHandler P s bid = (Inr (), s\<lparr>bookings := remove1 b (bookings s)\<rparr>)"
      using assms(1,2) by (simp add: CancelBookingHandler_def)
    have "\<forall>y \<in> set (remove1 b (bookings s)). b_id y \<noteq> b_id b"
    proof
      fix y assume y: "y \<in> set (remove1 b (bookings s))"
      have d: "distinct (bookings s)" using assms(3) by (simp add: distinct_map)
      from y d have "y \<in> set (bookings s)" "y \<noteq> b" by auto
      with b assms(3) show "b_id y \<noteq> b_id b" by (auto simp: distinct_map inj_on_def)
    qed
    then have "\<forall>y \<in> set (bookings (s\<lparr>bookings := remove1 b (bookings s)\<rparr>)). sql_int P bid \<noteq> Some (b_id y)"
      using k by auto
    then have two: "CancelBookingHandler P (s\<lparr>bookings := remove1 b (bookings s)\<rparr>) bid =
          (Inl NotFound, s\<lparr>bookings := remove1 b (bookings s)\<rparr>)" by (rule absent)
    from one two show ?thesis by simp
  qed
  from absent [of s] present show ?thesis by blast
qed

theorem cancel_booking_outcomes_witness:
  "CancelBookingHandler example_platform kolkata_booked ''1'' =
     (Inr (), kolkata_booked\<lparr>bookings := []\<rparr>) \<and>
   CancelBookingHandler example_platform (kolkata_booked\<lparr>bookings := []\<rparr>) ''1'' =
     (Inl NotFound, kolkata_booked\<lparr>bookings := []\<rparr>)"
proof -
  let ?b = "\<lparr>b_id = 1, b_user_id = 101, b_coach_id = 1,
      b_start_time = utc_time 2025 10 28 3 30,
      b_end_time = utc_time 2025 10 28 3 30 + 30 * Minute_d\<rparr>"
  have h1: "''1'' \<noteq> []" by simp
  have h2: "sql_exact example_platform ''1''" by code_simp
  have h3: "distinct (map b_id (bookings kolkata_booked))" by code_simp
  have b: "?b \<in> set (bookings kolkata_booked)" by code_simp
  have k: "sql_int example_platform ''1'' = Some (b_id ?b)" by code_simp
  have rm: "remove1 ?b (bookings kolkata_booked) = []" by code_simp
  from cancel_booking_outcomes [OF h1 h2 h3] b k
  have "CancelBookingHandler example_platform kolkata_booked ''1'' =
      (Inr (), kolkata_booked\<lparr>bookings := remove1 ?b (bookings kolkata_booked)\<rparr>) \<and>
    CancelBookingHandler example_platform
      (kolkata_booked\<lparr>bookings := remove1 ?b (bookings kolkata_booked)\<rparr>) ''1'' =
      (Inl NotFound, kolkata_booked\<lparr>bookings := remove1 ?b (bookings kolkata_booked)\<rparr>)"
    by blast
  then show ?thesis by (simp only: rm)
qed

section \<open>Stored timezones\<close>

text \<open>
  C10. In every state the handlers reach from empty tables, the timezone of every coach
  row loads, so neither \<open>GetSlotsHandler\<close> nor \<open>PostBookingHandler\<close> ever calls a
  \<open>Time\<close> method with a nil location.
\<close>

theorem location_never_nil:
  assumes "reachable P s"
  shows "(\<forall>c \<in> set (coaches s). LoadLocation P (c_timezone c) \<noteq> None) \<and>
         (\<forall>coachID dateStr. GetSlotsHandler P s coachID dateStr \<noteq> Inl NilLocation) \<and>
         (\<forall>r. fst (PostBookingHandler P s r) \<noteq> Inl NilLocation)"
proof -
  have co: "\<forall>c \<in> set (coaches s). LoadLocation P (c_timezone c) \<noteq> None"
    using reachable_db_inv [OF assms] by (simp add: db_inv_def)
  have loads: "LoadLocation P tz \<noteq> None" if "coach_timezone s k = Some tz" for k tz
    using coach_timezone_coach [OF that] co by auto
  have slots: "GetSlotsHandler P s coachID dateStr \<noteq> Inl NilLocation" for coachID dateStr
    by (auto simp: GetSlotsHandler_def Let_def split: option.splits dest: loads)
  have book: "fst (PostBookingHandler P s r) \<noteq> Inl NilLocation" for r
    by (auto simp: PostBookingHandler_def insert_booking_def split: option.splits dest: loads)
  from co slots book show ?thesis by blast
qed

theorem location_never_nil_witness:
  "GetSlotsHandler example_platform kolkata_booked ''1'' ''2025-10-28'' \<noteq> Inl NilLocation \<and>
   fst (PostBookingHandler example_platform kolkata_booked (book ''2025-10-28T03:30:00Z'')) \<noteq>
     Inl NilLocation"
  using location_never_nil [OF kolkata_booked_reachable] by blast

end
